theory Spec2Isabelle
  imports Main "HOL-Library.Multiset" "HOL-Library.List_Lexorder" "HOL-Library.Char_ord"
begin

section \<open>Data model of pkg/controller/appdefinition/secret.go\<close>

text \<open>
  Go strings and byte slices are both byte sequences; they are \<open>string\<close> here, and the
  conversions \<open>[]byte(s)\<close> and \<open>string(b)\<close> are the identity. Go compares strings
  bytewise, which is the lexicographic order on \<open>char list\<close> of the library.
\<close>

type_synonym bytes = string

text \<open>
  Errors. The driver distinguishes three shapes: an API status error whose reason is
  not-found (\<open>apierrors.IsNotFound\<close>), any other error that implements
  \<open>apierrors.APIStatus\<close>, and a plain error. A call of this file fails with an
  error value or with a Go run-time panic (a slice expression out of range), which no
  caller recovers; the collaborators only return error values.
\<close>

datatype error =
    NotFoundErr string
  | APIStatusErr string
  | PlainErr string

datatype failure = Err error | Panic

fun IsNotFound :: "error \<Rightarrow> bool" where
  "IsNotFound (NotFoundErr _) = True"
| "IsNotFound _ = False"



definition ErrJobNotDone :: error where
  "ErrJobNotDone = PlainErr ''job not complete''"

definition ErrJobNoOutput :: error where
  "ErrJobNoOutput = PlainErr ''job has no output''"

text \<open>The five label keys of \<open>labelsForSecret\<close> (constants of package labels).\<close>

datatype labelKey = HerdAppName | HerdAppNamespace | HerdManaged | HerdAppUID | HerdSecretName

type_synonym labelSet = "labelKey \<rightharpoonup> string"

text \<open>The fields of \<open>corev1.Secret\<close> that the code reads or writes.\<close>

record k8sSecret =
  GenerateName :: string
  Name :: string
  Namespace :: string
  Labels :: labelSet
  UID :: string
  Data :: "string \<rightharpoonup> bytes"
  Type :: string

text \<open>A value of \<open>map[string]interface{}\<close>, as far as descriptors use it.\<close>

datatype pval = PString string | PInt int | PStrings "string list"

text \<open>\<open>v1.Secret\<close>, the descriptor; \<open>Optional\<close> is a \<open>*bool\<close>.\<close>

record secretDef =
  sType :: string
  Params :: "string \<rightharpoonup> pval"
  sData :: "string \<rightharpoonup> string"
  Optional :: "bool option"

record secretBinding =
  bSecret :: string
  SecretRequest :: string

text \<open>
  \<open>v1.AppInstance\<close>. The Go map \<open>Status.AppSpec.Secrets\<close> is an association list
  whose keys are distinct; its order stands for the order of declaration, which a Go map
  does not keep.
\<close>

record appInstance =
  aName :: string
  aNamespace :: string
  aUID :: string
  Spec_Secrets :: "secretBinding list"
  Status_Namespace :: string
  Status_Secrets :: "(string \<times> secretDef) list"

section \<open>seedData\<close>

text \<open>
  \<open>from[key]\<close> on a Go map is the empty string for an absent key, so every key of
  \<open>keys\<close> gets an entry.
\<close>

definition go_index :: "(string \<rightharpoonup> string) \<Rightarrow> string \<Rightarrow> string" where
  "go_index m k = (case m k of None \<Rightarrow> [] | Some v \<Rightarrow> v)"

fun seedData_loop :: "(string \<rightharpoonup> string) \<Rightarrow> string list \<Rightarrow> (string \<rightharpoonup> bytes) \<Rightarrow> (string \<rightharpoonup> bytes)" where
  "seedData_loop from [] to = to"
| "seedData_loop from (key # keys) to = seedData_loop from keys (to(key \<mapsto> go_index from key))"

definition seedData :: "(string \<rightharpoonup> string) \<Rightarrow> string list \<Rightarrow> (string \<rightharpoonup> bytes)" where
  "seedData from keys = seedData_loop from keys Map.empty"

section \<open>secretsOrdered\<close>

record secEntry =
  name :: string
  secret :: secretDef

text \<open>
  \<open>typed.Sorted\<close> (library baaah) returns the entries of a map sorted by key.
\<close>

definition typed_Sorted :: "(string \<times> 'v) list \<Rightarrow> (string \<times> 'v) list" where
  "typed_Sorted m = sort_key fst m"

fun secretsOrdered_loop ::
  "(string \<times> secretDef) list \<Rightarrow> secEntry list \<Rightarrow> secEntry list \<Rightarrow> secEntry list" where
  "secretsOrdered_loop [] result generated = result @ generated"
| "secretsOrdered_loop (entry # rest) result generated =
     (if sType (snd entry) = ''generated''
      then secretsOrdered_loop rest result
             (generated @ [\<lparr>name = fst entry, secret = snd entry\<rparr>])
      else secretsOrdered_loop rest
             (result @ [\<lparr>name = fst entry, secret = snd entry\<rparr>]) generated)"

definition secretsOrdered :: "appInstance \<Rightarrow> secEntry list" where
  "secretsOrdered app = secretsOrdered_loop (typed_Sorted (Status_Secrets app)) [] []"

definition is_generated :: "secEntry \<Rightarrow> bool" where
  "is_generated e = (sType (secret e) = ''generated'')"

definition toEntry :: "string \<times> secretDef \<Rightarrow> secEntry" where
  "toEntry p = \<lparr>name = fst p, secret = snd p\<rparr>"

section \<open>The collaborators\<close>

text \<open>The fields of \<open>batchv1.Job\<close> and \<open>corev1.Pod\<close> that \<open>getJobOutput\<close> reads.\<close>

record job =
  Succeeded :: int
  Spec_Selector :: string

record terminated =
  ExitCode :: int
  Message :: string

record containerStatus =
  Terminated :: "terminated option"

record pod =
  ContainerStatuses :: "containerStatus list"

text \<open>\<open>v1.TLSParams\<close>, the decoded parameters of a tls or ssh-auth descriptor.\<close>

record tlsParams =
  Algorithm :: string
  CASecret :: string
  Usage :: string
  CommonName :: string
  Organization :: "string list"
  SANs :: "string list"
  DurationDays :: int

text \<open>The structure a json job payload is parsed into.\<close>

record secretData =
  sdType :: string
  sdData :: "string \<rightharpoonup> string"

text \<open>
  Everything outside this file that the code calls is a field of the environment: the
  object store client, the conversion and JSON libraries, the certificate primitives and
  the random token source. The random primitives take the position in the random stream
  (\<open>tick\<close> of the pass state), so that two calls can give different values.
  \<open>client_Create\<close> answers with the name and the identifier the store assigns.
\<close>

record env =
  client_GetSecret :: "string \<Rightarrow> error + k8sSecret"
  client_GetJob :: "string \<Rightarrow> string \<Rightarrow> error + job"
  client_ListPods :: "string \<Rightarrow> string \<Rightarrow> error + pod list"
  client_ListSecrets :: "labelSet \<Rightarrow> error + k8sSecret list"
  client_Create :: "k8sSecret \<Rightarrow> error + string \<times> string"
  LabelSelectorAsSelector :: "string \<Rightarrow> error + string"
  convert_ToString :: "pval option \<Rightarrow> string"
  convert_ToObj :: "(string \<rightharpoonup> pval) \<Rightarrow> error + tlsParams"
  params_Complete :: "tlsParams \<Rightarrow> tlsParams"
  json_Unmarshal :: "bytes \<Rightarrow> error + secretData"
  certs_GeneratePrivateKey :: "nat \<Rightarrow> string \<Rightarrow> error + bytes"
  certs_GenerateCA :: "nat \<Rightarrow> string \<Rightarrow> error + bytes \<times> bytes"
  certs_GenerateCert :: "nat \<Rightarrow> bytes \<Rightarrow> bytes \<Rightarrow> tlsParams \<Rightarrow> error + bytes \<times> bytes"
  randomtoken_Generate :: "nat \<Rightarrow> string \<times> error option"

text \<open>
  The state of one pass: the map \<open>secrets\<close> that \<open>CreateSecrets\<close> allocates and
  threads through every resolver call, the objects created in the store so far, and the
  position in the random stream. \<open>attempts\<close> is a log, not in the source, of the
  descriptor names for which \<open>generateSecret\<close> called a generator.
\<close>

record passState =
  secrets :: "string \<rightharpoonup> k8sSecret"
  created :: "k8sSecret list"
  tick :: nat
  attempts :: "string list"

type_synonym 'a result = "(failure + 'a) \<times> passState"

text \<open>The resolver as the generators see it: the re-entry into \<open>getOrCreateSecret\<close>;
  \<open>None\<close> is a call that does not return.\<close>

type_synonym resolver = "passState \<Rightarrow> string \<Rightarrow> k8sSecret result option"

definition Create :: "env \<Rightarrow> passState \<Rightarrow> k8sSecret \<Rightarrow> k8sSecret result" where
  "Create E st s =
     (case client_Create E s of
        Inl e \<Rightarrow> (Inl (Err e), st)
      | Inr (n, u) \<Rightarrow>
          (Inr (s\<lparr>Name := n, UID := u\<rparr>),
           st\<lparr>created := created st @ [s\<lparr>Name := n, UID := u\<rparr>]\<rparr>))"

definition blen :: "(string \<rightharpoonup> bytes) \<Rightarrow> string \<Rightarrow> nat" where
  "blen d k = length (go_index d k)"

section \<open>getJobOutput\<close>

fun scan_statuses :: "containerStatus list \<Rightarrow> bytes option" where
  "scan_statuses [] = None"
| "scan_statuses (status # rest) =
     (case Terminated status of
        None \<Rightarrow> scan_statuses rest
      | Some t \<Rightarrow>
          if ExitCode t \<noteq> 0 then scan_statuses rest
          else if length (Message t) > 0 then Some (Message t)
          else scan_statuses rest)"

fun scan_pods :: "pod list \<Rightarrow> bytes option" where
  "scan_pods [] = None"
| "scan_pods (p # rest) =
     (case scan_statuses (ContainerStatuses p) of
        Some m \<Rightarrow> Some m
      | None \<Rightarrow> scan_pods rest)"

definition getJobOutput :: "env \<Rightarrow> string \<Rightarrow> string \<Rightarrow> error + job \<times> bytes" where
  "getJobOutput E namespace jname =
     (case client_GetJob E namespace jname of
        Inl e \<Rightarrow> Inl e
      | Inr j \<Rightarrow>
          if Succeeded j \<noteq> 1 then Inl ErrJobNotDone
          else (case LabelSelectorAsSelector E (Spec_Selector j) of
            Inl e \<Rightarrow> Inl e
          | Inr sel \<Rightarrow>
              (case client_ListPods E namespace sel of
                 Inl e \<Rightarrow> Inl e
               | Inr pods \<Rightarrow>
                   if length pods = 0 then Inl (NotFoundErr ''pods'')
                   else (case scan_pods pods of
                           Some m \<Rightarrow> Inr (j, m)
                         | None \<Rightarrow> Inl ErrJobNoOutput))))"

section \<open>The generators\<close>

definition labelsForSecret :: "string \<Rightarrow> appInstance \<Rightarrow> labelSet" where
  "labelsForSecret secretName app =
     [HerdAppName \<mapsto> aName app,
      HerdAppNamespace \<mapsto> aNamespace app,
      HerdManaged \<mapsto> ''true'',
      HerdAppUID \<mapsto> aUID app,
      HerdSecretName \<mapsto> secretName]"

definition newSecret :: "appInstance \<Rightarrow> string \<Rightarrow> (string \<rightharpoonup> bytes) \<Rightarrow> string \<Rightarrow> k8sSecret" where
  "newSecret app secretName d t =
     \<lparr>GenerateName = secretName @ ''-'', Name = [], Namespace = aNamespace app,
      Labels = labelsForSecret secretName app, UID = [], Data = d, Type = t\<rparr>"

definition generatedSecret ::
  "env \<Rightarrow> appInstance \<Rightarrow> passState \<Rightarrow> string \<Rightarrow> secretDef \<Rightarrow> k8sSecret result" where
  "generatedSecret E app st secretName secretRef =
     (case getJobOutput E (Status_Namespace app) (convert_ToString E (Params secretRef ''job'')) of
        Inl e \<Rightarrow> (Inl (Err e), st)
      | Inr (j, output) \<Rightarrow>
          (let sec = newSecret app secretName (seedData (sData secretRef) []) ''Opaque'';
               format = convert_ToString E (Params secretRef ''format'')
           in if format = ''text''
              then (Inr (sec\<lparr>Data := (Data sec)(''content'' \<mapsto> output)\<rparr>), st)
              else if format = ''json''
              then (case json_Unmarshal E output of
                      Inl e \<Rightarrow> (Inl (Err e), st)
                    | Inr parsed \<Rightarrow>
                        (Inr (sec\<lparr>Data := Data sec ++ sdData parsed,
                                   Type := (if sdType parsed \<noteq> [] then sdType parsed
                                            else Type sec)\<rparr>), st))
              else (Inr sec, st)))"

definition generateSSH ::
  "env \<Rightarrow> appInstance \<Rightarrow> passState \<Rightarrow> string \<Rightarrow> secretDef \<Rightarrow> k8sSecret result" where
  "generateSSH E app st secretName secretRef =
     (let sec = newSecret app secretName (seedData (sData secretRef) [''ssh-privatekey''])
                  ''kubernetes.io/ssh-auth''
      in if blen (Data sec) ''ssh-privatekey'' > 0 then Create E st sec
         else (case convert_ToObj E (Params secretRef) of
                 Inl e \<Rightarrow> (Inl (Err e), st)
               | Inr params0 \<Rightarrow>
                   (let params = params_Complete E params0;
                        st1 = st\<lparr>tick := Suc (tick st)\<rparr>
                    in case certs_GeneratePrivateKey E (tick st) (Algorithm params) of
                         Inl e \<Rightarrow> (Inl (Err e), st1)
                       | Inr key \<Rightarrow>
                           Create E st1 (sec\<lparr>Data := (Data sec)(''ssh-privatekey'' \<mapsto> key)\<rparr>))))"

definition generateTLS ::
  "resolver \<Rightarrow> env \<Rightarrow> appInstance \<Rightarrow> passState \<Rightarrow> string \<Rightarrow> secretDef
     \<Rightarrow> k8sSecret result option" where
  "generateTLS resolve E app st secretName secretRef =
     (let sec = newSecret app secretName
                  (seedData (sData secretRef) [''tls.crt'', ''tls.key'', ''ca.crt'', ''ca.key''])
                  ''kubernetes.io/tls''
      in if blen (Data sec) ''tls.crt'' > 0 \<and> blen (Data sec) ''tls.key'' > 0
         then Some (Create E st sec)
         else (case convert_ToObj E (Params secretRef) of
                 Inl e \<Rightarrow> Some (Inl (Err e), st)
               | Inr params \<Rightarrow>
                   (let ca =
                      (if blen (Data sec) ''ca.crt'' = 0 \<or> blen (Data sec) ''ca.key'' = 0
                       then (if CASecret params = []
                             then (case certs_GenerateCA E (tick st) (Algorithm params) of
                                     Inl e \<Rightarrow> Some (Inl (Err e), st\<lparr>tick := Suc (tick st)\<rparr>)
                                   | Inr pems \<Rightarrow> Some (Inr pems, st\<lparr>tick := Suc (tick st)\<rparr>))
                             else (case resolve st (CASecret params) of
                                     None \<Rightarrow> None
                                   | Some (Inl e, st') \<Rightarrow> Some (Inl e, st')
                                   | Some (Inr caSecret, st') \<Rightarrow>
                                       Some (Inr (go_index (Data caSecret) ''ca.crt'',
                                                  go_index (Data caSecret) ''ca.key''), st')))
                       else Some (Inr (go_index (Data sec) ''ca.crt'',
                                       go_index (Data sec) ''ca.key''), st))
                    in case ca of
                         None \<Rightarrow> None
                       | Some (Inl e, st1) \<Rightarrow> Some (Inl e, st1)
                       | Some (Inr (caPEM, caKeyPEM), st1) \<Rightarrow>
                           (let st2 = st1\<lparr>tick := Suc (tick st1)\<rparr>
                            in case certs_GenerateCert E (tick st1) caPEM caKeyPEM params of
                                 Inl e \<Rightarrow> Some (Inl (Err e), st2)
                               | Inr (cert, key) \<Rightarrow>
                                   (let d = (Data sec)(''tls.crt'' \<mapsto> cert, ''tls.key'' \<mapsto> key);
                                        d' = (if CASecret params = []
                                              then d(''ca.crt'' \<mapsto> caPEM, ''ca.key'' \<mapsto> caKeyPEM)
                                              else d)
                                    in Some (Create E st2 (sec\<lparr>Data := d'\<rparr>)))))))"

text \<open>
  The loop of \<open>generateBasic\<close> over \<open>(i, key)\<close>. The slice expression
  \<open>v[:(i+1)*8]\<close> is evaluated before \<open>err\<close> is looked at, and panics when the token
  is shorter than \<open>(i+1)*8\<close>.
\<close>

fun generateBasic_loop ::
  "env \<Rightarrow> (nat \<times> string) list \<Rightarrow> passState \<Rightarrow> k8sSecret \<Rightarrow> k8sSecret result" where
  "generateBasic_loop E [] st sec = (Inr sec, st)"
| "generateBasic_loop E ((i, key) # rest) st sec =
     (if blen (Data sec) key = 0
      then (let (v, err) = randomtoken_Generate E (tick st);
                st1 = st\<lparr>tick := Suc (tick st)\<rparr>
            in if length v < (i + 1) * 8 then (Inl Panic, st1)
               else (case err of
                       Some e \<Rightarrow> (Inl (Err e), st1)
                     | None \<Rightarrow>
                         generateBasic_loop E rest st1
                           (sec\<lparr>Data := (Data sec)(key \<mapsto> take ((i + 1) * 8) v)\<rparr>)))
      else generateBasic_loop E rest st sec)"

definition generateBasic ::
  "env \<Rightarrow> appInstance \<Rightarrow> passState \<Rightarrow> string \<Rightarrow> secretDef \<Rightarrow> k8sSecret result" where
  "generateBasic E app st secretName secretRef =
     (case generateBasic_loop E [(0, ''username''), (1, ''password'')] st
             (newSecret app secretName (seedData (sData secretRef) [''username'', ''password''])
                ''kubernetes.io/basic-auth'') of
        (Inl e, st') \<Rightarrow> (Inl e, st')
      | (Inr sec, st') \<Rightarrow> Create E st' sec)"

definition generateDocker ::
  "env \<Rightarrow> appInstance \<Rightarrow> passState \<Rightarrow> string \<Rightarrow> secretDef \<Rightarrow> k8sSecret result" where
  "generateDocker E app st secretName secretRef =
     (let sec = newSecret app secretName (seedData (sData secretRef) [''.dockerconfigjson''])
                  ''kubernetes.io/dockerconfigjson''
      in if blen (Data sec) ''.dockerconfigjson'' = 0
         then Create E st (sec\<lparr>Data := (Data sec)(''.dockerconfigjson'' \<mapsto> ''{}'')\<rparr>)
         else Create E st sec)"

section \<open>The resolver\<close>

text \<open>
  \<open>sort.Slice\<close> by \<open>UID\<close>, then the first item. The library sort is not stable, but
  the identifiers of stored objects are distinct, so the sorted slice is determined.
\<close>

definition getSecret :: "env \<Rightarrow> appInstance \<Rightarrow> string \<Rightarrow> error + k8sSecret" where
  "getSecret E app secretName =
     (case client_ListSecrets E (labelsForSecret secretName app) of
        Inl e \<Rightarrow> Inl e
      | Inr items \<Rightarrow>
          if length items = 0 then Inl (NotFoundErr secretName)
          else Inr (hd (sort_key UID items)))"

definition generateSecret ::
  "resolver \<Rightarrow> env \<Rightarrow> appInstance \<Rightarrow> passState \<Rightarrow> string \<Rightarrow> k8sSecret result option" where
  "generateSecret resolve E app st secretName =
     (case getSecret E app secretName of
        Inr sec \<Rightarrow> Some (Inr sec, st)
      | Inl err \<Rightarrow>
          if IsNotFound err
          then (case map_of (Status_Secrets app) secretName of
                  None \<Rightarrow> Some (Inl (Err (NotFoundErr secretName)), st)
                | Some secretRef \<Rightarrow>
                    (let st0 = st\<lparr>attempts := attempts st @ [secretName]\<rparr>
                     in if sType secretRef = ''docker''
                        then Some (generateDocker E app st0 secretName secretRef)
                        else if sType secretRef = ''basic''
                        then Some (generateBasic E app st0 secretName secretRef)
                        else if sType secretRef = ''tls''
                        then generateTLS resolve E app st0 secretName secretRef
                        else if sType secretRef = ''ssh-auth''
                        then Some (generateSSH E app st0 secretName secretRef)
                        else if sType secretRef = ''generated''
                        then Some (generatedSecret E app st0 secretName secretRef)
                        else Some (Inl (Err err), st)))
          else Some (Inl (Err err), st))"


section \<open>CreateSecrets\<close>










section \<open>Example inputs\<close>

definition descriptor :: "string \<Rightarrow> secretDef" where
  "descriptor t = \<lparr>sType = t, Params = Map.empty, sData = Map.empty, Optional = None\<rparr>"

definition app_with :: "(string \<times> secretDef) list \<Rightarrow> secretBinding list \<Rightarrow> appInstance" where
  "app_with ds bs =
     \<lparr>aName = ''app-name'', aNamespace = ''app-ns'', aUID = ''uid'', Spec_Secrets = bs,
      Status_Namespace = ''app-target-ns'', Status_Secrets = ds\<rparr>"

definition order_app :: appInstance where
  "order_app = app_with [(''z'', descriptor ''tls''), (''b'', descriptor ''generated''),
                         (''a'', descriptor ''basic'')] []"

definition order_app' :: appInstance where
  "order_app' = app_with [(''a'', descriptor ''basic''), (''b'', descriptor ''generated''),
                          (''z'', descriptor ''tls'')] []"

definition pstr :: "pval option \<Rightarrow> string" where
  "pstr v = (case v of Some (PString s) \<Rightarrow> s | _ \<Rightarrow> [])"

definition env0 :: env where
  "env0 =
     \<lparr>client_GetSecret = (\<lambda>n. Inl (NotFoundErr n)),
      client_GetJob = (\<lambda>ns n. Inl (NotFoundErr n)),
      client_ListPods = (\<lambda>ns sel. Inr []),
      client_ListSecrets = (\<lambda>l. Inr []),
      client_Create = (\<lambda>s. Inr (GenerateName s @ ''x'', ''uid-'' @ GenerateName s)),
      LabelSelectorAsSelector = (\<lambda>s. Inr s),
      convert_ToString = pstr,
      convert_ToObj = (\<lambda>m. Inr \<lparr>Algorithm = pstr (m ''algorithm''), CASecret = pstr (m ''caSecret''),
                                  Usage = [], CommonName = [], Organization = [], SANs = [],
                                  DurationDays = 0\<rparr>),
      params_Complete = (\<lambda>p. p),
      json_Unmarshal = (\<lambda>b. Inl (PlainErr ''invalid character'')),
      certs_GeneratePrivateKey = (\<lambda>t alg. Inr (''KEY'' @ replicate t (CHR ''+''))),
      certs_GenerateCA = (\<lambda>t alg. Inr (''CA'' @ replicate t (CHR ''+''), ''CAKEY'' @ replicate t (CHR ''+''))),
      certs_GenerateCert = (\<lambda>t ca cakey p. Inr (''CERT by '' @ ca, ''KEY'' @ replicate t (CHR ''+''))),
      randomtoken_Generate = (\<lambda>t. (replicate 54 (CHR ''a''), None))\<rparr>"

definition stored :: "string \<Rightarrow> string \<Rightarrow> k8sSecret" where
  "stored n u = \<lparr>GenerateName = [], Name = n, Namespace = ''app-ns'', Labels = Map.empty,
                 UID = u, Data = Map.empty, Type = ''Opaque''\<rparr>"

definition env_dup :: env where
  "env_dup = env0\<lparr>client_ListSecrets :=
     (\<lambda>l. if l HerdSecretName = Some ''db''
          then Inr [stored ''db-2'' ''b7'', stored ''db-1'' ''a9'', stored ''db-3'' ''c1'']
          else Inr [])\<rparr>"

definition st0 :: passState where
  "st0 = \<lparr>secrets = Map.empty, created = [], tick = 0, attempts = []\<rparr>"




definition password_only :: secretDef where
  "password_only = \<lparr>sType = ''basic'', Params = Map.empty,
                     sData = [''username'' \<mapsto> ''admin''], Optional = None\<rparr>"

definition env_rng_fails :: env where
  "env_rng_fails = env0\<lparr>randomtoken_Generate := (\<lambda>t. ([], Some (PlainErr ''entropy'')))\<rparr>"

section \<open>Properties of the processing order\<close>

lemma secretsOrdered_loop_filter:
  "secretsOrdered_loop es result generated =
     result @ filter (\<lambda>e. \<not> is_generated e) (map toEntry es)
       @ generated @ filter is_generated (map toEntry es)"
  by (induction es arbitrary: result generated) (simp_all add: is_generated_def toEntry_def)

lemma secretsOrdered_filter:
  "secretsOrdered app =
     filter (\<lambda>e. \<not> is_generated e) (map toEntry (typed_Sorted (Status_Secrets app)))
       @ filter is_generated (map toEntry (typed_Sorted (Status_Secrets app)))"
  by (simp add: secretsOrdered_def secretsOrdered_loop_filter)

lemma name_toEntry: "map name (map toEntry es) = map fst es"
  by (simp add: toEntry_def comp_def)

lemma sorted_names_filter:
  "sorted (map fst es) \<Longrightarrow> sorted (map name (filter P (map toEntry es)))"
proof -
  assume "sorted (map fst es)"
  then have "sorted (map name (map toEntry es))"
    by (simp only: name_toEntry)
  then show ?thesis
    by (rule sorted_filter)
qed

lemma sorted_typed_Sorted: "sorted (map fst (typed_Sorted m))"
  by (simp add: typed_Sorted_def)

lemma filter_key_distinct:
  "distinct (map fst xs) \<Longrightarrow> k \<in> set xs \<Longrightarrow> filter (\<lambda>x. fst k = fst x) xs = [k]"
proof (induction xs)
  case Nil
  then show ?case by simp
next
  case (Cons a xs)
  have notin: "fst a \<notin> fst ` set xs" using Cons.prems(1) by simp
  show ?case
  proof (cases "k = a")
    case True
    from notin have "\<forall>x\<in>set xs. fst x \<noteq> fst a" by (metis imageI)
    then have "filter (\<lambda>x. fst a = fst x) xs = []" by (auto simp: filter_empty_conv)
    with True show ?thesis by simp
  next
    case False
    then have kin: "k \<in> set xs" using Cons.prems(2) by simp
    with notin have "fst k \<noteq> fst a" by (metis imageI)
    with Cons.IH kin Cons.prems(1) show ?thesis by simp
  qed
qed

lemma typed_Sorted_perm_invariant:
  assumes "distinct (map fst m)" and "mset m = mset m'"
  shows "typed_Sorted m = typed_Sorted m'"
proof -
  have d: "distinct (map fst m')"
    using assms by (metis mset_eq_imp_distinct_iff mset_map)
  have s: "set m = set m'" using assms(2) by (rule mset_eq_setD)
  have ds: "distinct (map fst (sort_key fst m'))"
    using d by (metis distinct_map distinct_sort set_sort)
  show ?thesis
    unfolding typed_Sorted_def
  proof (rule properties_for_sort_key)
    show "mset (sort_key fst m') = mset m" using assms(2) by simp
    show "sorted (map fst (sort_key fst m'))" by simp
    fix k assume k: "k \<in> set (sort_key fst m')"
    then have "k \<in> set m" using s by simp
    then have "filter (\<lambda>x. fst k = fst x) m = [k]"
      using assms(1) by (rule filter_key_distinct[rotated])
    moreover have "filter (\<lambda>x. fst k = fst x) (sort_key fst m') = [k]"
      using ds k by (rule filter_key_distinct)
    ultimately show "filter (\<lambda>x. fst k = fst x) (sort_key fst m')
                       = filter (\<lambda>x. fst k = fst x) m"
      by simp
  qed
qed

text \<open>
  C4. The processing order is the non-generated descriptors followed by the generated
  ones, each group sorted by name; it holds every declared descriptor once, and it is the
  same for every order of declaration of the same descriptors.
\<close>

theorem secretsOrdered_order:
  "(\<exists>nongen gen.
      secretsOrdered app = nongen @ gen
    \<and> (\<forall>e \<in> set nongen. sType (secret e) \<noteq> ''generated'')
    \<and> (\<forall>e \<in> set gen. sType (secret e) = ''generated'')
    \<and> sorted (map name nongen) \<and> sorted (map name gen))
   \<and> mset (secretsOrdered app) = mset (map toEntry (Status_Secrets app))
   \<and> (\<forall>app'. distinct (map fst (Status_Secrets app))
         \<and> mset (Status_Secrets app') = mset (Status_Secrets app)
         \<longrightarrow> secretsOrdered app' = secretsOrdered app)"
proof (intro conjI allI impI)
  let ?s = "map toEntry (typed_Sorted (Status_Secrets app))"
  show "\<exists>nongen gen.
      secretsOrdered app = nongen @ gen
    \<and> (\<forall>e \<in> set nongen. sType (secret e) \<noteq> ''generated'')
    \<and> (\<forall>e \<in> set gen. sType (secret e) = ''generated'')
    \<and> sorted (map name nongen) \<and> sorted (map name gen)"
  proof (intro exI conjI)
    show "secretsOrdered app = filter (\<lambda>e. \<not> is_generated e) ?s @ filter is_generated ?s"
      by (rule secretsOrdered_filter)
    show "\<forall>e\<in>set (filter (\<lambda>e. \<not> is_generated e) ?s). sType (secret e) \<noteq> ''generated''"
      by (simp add: is_generated_def)
    show "\<forall>e\<in>set (filter is_generated ?s). sType (secret e) = ''generated''"
      by (simp add: is_generated_def)
    show "sorted (map name (filter (\<lambda>e. \<not> is_generated e) ?s))"
      by (rule sorted_names_filter) (rule sorted_typed_Sorted)
    show "sorted (map name (filter is_generated ?s))"
      by (rule sorted_names_filter) (rule sorted_typed_Sorted)
  qed
  have "mset (filter (\<lambda>e. \<not> is_generated e) ?s @ filter is_generated ?s) = mset ?s"
    by (simp add: add.commute flip: multiset_partition)
  then show "mset (secretsOrdered app) = mset (map toEntry (Status_Secrets app))"
    by (simp add: secretsOrdered_filter typed_Sorted_def)
next
  fix app' :: appInstance
  assume a: "distinct (map fst (Status_Secrets app))
               \<and> mset (Status_Secrets app') = mset (Status_Secrets app)"
  then have "typed_Sorted (Status_Secrets app) = typed_Sorted (Status_Secrets app')"
    by (intro typed_Sorted_perm_invariant) simp_all
  then show "secretsOrdered app' = secretsOrdered app"
    by (simp add: secretsOrdered_def)
qed

theorem secretsOrdered_order_witness:
  "distinct (map fst (Status_Secrets order_app))
   \<and> mset (Status_Secrets order_app') = mset (Status_Secrets order_app)
   \<and> secretsOrdered order_app' = secretsOrdered order_app
   \<and> map name (secretsOrdered order_app) = [''a'', ''z'', ''b'']
   \<and> map (sType \<circ> secret) (secretsOrdered order_app) = [''basic'', ''tls'', ''generated'']"
proof -
  have d: "distinct (map fst (Status_Secrets order_app))"
    by (simp add: order_app_def app_with_def)
  have m: "mset (Status_Secrets order_app') = mset (Status_Secrets order_app)"
    by (simp add: order_app_def order_app'_def app_with_def)
  have e: "secretsOrdered order_app' = secretsOrdered order_app"
    using secretsOrdered_order [of order_app] d m by blast
  have n: "map name (secretsOrdered order_app') = [''a'', ''z'', ''b'']"
    by (simp add: secretsOrdered_def typed_Sorted_def order_app'_def app_with_def descriptor_def)
  have t: "map (sType \<circ> secret) (secretsOrdered order_app') = [''basic'', ''tls'', ''generated'']"
    by (simp add: secretsOrdered_def typed_Sorted_def order_app'_def app_with_def descriptor_def)
  from d m e n t show ?thesis by simp
qed

section \<open>Maps with a default\<close>

lemma go_index_empty [simp]: "go_index Map.empty k = []"
  by (simp add: go_index_def)

lemma go_index_upd [simp]: "go_index (m(k \<mapsto> v)) k' = (if k' = k then v else go_index m k')"
  by (simp add: go_index_def)

lemma seedData_loop_apply:
  "seedData_loop from keys to k = (if k \<in> set keys then Some (go_index from k) else to k)"
  by (induction keys arbitrary: to) auto

lemma seedData_apply:
  "seedData from keys k = (if k \<in> set keys then Some (go_index from k) else None)"
  by (simp add: seedData_def seedData_loop_apply)

lemma go_index_seedData [simp]:
  "go_index (seedData from keys) k = (if k \<in> set keys then go_index from k else [])"
  by (simp add: go_index_def seedData_apply)

section \<open>The canonical stored object\<close>

lemma hd_sort_key_least:
  assumes "xs \<noteq> []"
  shows "hd (sort_key f xs) \<in> set xs \<and> (\<forall>x \<in> set xs. f (hd (sort_key f xs)) \<le> f x)"
proof -
  let ?ys = "sort_key f xs"
  have ne: "?ys \<noteq> []" using assms by (metis length_0_conv length_sort)
  then obtain y ys where ys: "?ys = y # ys" by (cases ?ys) auto
  have se: "set xs = insert y (set ys)"
    using ys by (metis list.simps(15) set_sort)
  have "sorted (map f (y # ys))" using ys by (metis sorted_sort_key)
  then have "\<forall>x \<in> set ys. f y \<le> f x" by simp
  then show ?thesis using ys se by simp
qed

text \<open>
  C8. When the label-selector lookup returns more than one object, \<open>getSecret\<close>
  returns one of them whose identifier is the smallest, and the resolver adopts it without
  generating anything.
\<close>

theorem getSecret_smallest_UID:
  assumes "client_ListSecrets E (labelsForSecret secretName app) = Inr items"
    and "length items > 1"
  shows "\<exists>sec. getSecret E app secretName = Inr sec
           \<and> sec \<in> set items
           \<and> (\<forall>x \<in> set items. UID sec \<le> UID x)
           \<and> generateSecret resolve E app st secretName = Some (Inr sec, st)"
proof -
  from assms(2) have ne: "items \<noteq> []" by auto
  have g: "getSecret E app secretName = Inr (hd (sort_key UID items))"
    using assms(1) ne by (simp add: getSecret_def)
  have "generateSecret resolve E app st secretName = Some (Inr (hd (sort_key UID items)), st)"
    by (simp add: generateSecret_def g)
  with g hd_sort_key_least [OF ne, of UID] show ?thesis by blast
qed

theorem getSecret_smallest_UID_witness:
  "client_ListSecrets env_dup (labelsForSecret ''db'' (app_with [] []))
     = Inr [stored ''db-2'' ''b7'', stored ''db-1'' ''a9'', stored ''db-3'' ''c1'']
   \<and> length [stored ''db-2'' ''b7'', stored ''db-1'' ''a9'', stored ''db-3'' ''c1''] > 1
   \<and> getSecret env_dup (app_with [] []) ''db'' = Inr (stored ''db-1'' ''a9'')"
proof -
  let ?items = "[stored ''db-2'' ''b7'', stored ''db-1'' ''a9'', stored ''db-3'' ''c1'']"
  have l: "client_ListSecrets env_dup (labelsForSecret ''db'' (app_with [] [])) = Inr ?items"
    by (simp add: env_dup_def env0_def labelsForSecret_def)
  have n: "length ?items > 1" by simp
  obtain sec where s: "getSecret env_dup (app_with [] []) ''db'' = Inr sec"
     "sec \<in> set ?items" "\<forall>x \<in> set ?items. UID sec \<le> UID x"
    using getSecret_smallest_UID [OF l n] by blast
  have "sec = stored ''db-1'' ''a9''"
    using s(2,3) by (auto simp: stored_def)
  with l n s(1) show ?thesis by simp
qed


section \<open>The aggregate condition\<close>






section \<open>Truncation of the random token\<close>

lemma generateBasic_loop_no_panic:
  assumes "\<forall>t. 16 \<le> length (fst (randomtoken_Generate E t))"
    and "\<forall>(i, k) \<in> set l. i \<le> 1"
  shows "fst (generateBasic_loop E l st sec) \<noteq> Inl Panic"
  using assms(2)
proof (induction l arbitrary: st sec)
  case Nil
  then show ?case by simp
next
  case (Cons a l)
  obtain i k where a: "a = (i, k)" by (cases a)
  obtain v err where g: "randomtoken_Generate E (tick st) = (v, err)"
    by (cases "randomtoken_Generate E (tick st)")
  have "16 \<le> length v" using assms(1) g by (metis fst_conv)
  moreover have "i \<le> 1" using Cons.prems a by simp
  ultimately have "\<not> length v < (i + 1) * 8" by (cases i) auto
  moreover have "\<forall>(i, k) \<in> set l. i \<le> 1" using Cons.prems by simp
  ultimately show ?case
    using Cons.IH a g by (auto simp: Let_def split: option.splits)
qed

lemma Create_no_panic: "fst (Create E st s) \<noteq> Inl Panic"
  by (auto simp: Create_def split: sum.splits)

lemma generateBasic_short_token:
  assumes "length (fst (randomtoken_Generate E t)) < 16"
  shows "fst (generateBasic E app (st\<lparr>tick := t\<rparr>) n password_only) = Inl Panic"
proof -
  obtain v err where g: "randomtoken_Generate E t = (v, err)"
    by (cases "randomtoken_Generate E t")
  then have "length v < 16" using assms by simp
  then show ?thesis
    using g by (simp add: generateBasic_def newSecret_def blen_def password_only_def)
qed

text \<open>
  C9. \<open>generateBasic\<close> truncates the token before it looks at the error of the
  random source: it panics on no input exactly when every token the source returns has
  at least 16 bytes; a source that reports an error together with a token shorter than
  the truncation makes it panic, not return the error.
\<close>

theorem generateBasic_truncation:
  "((\<forall>app st n ref. fst (generateBasic E app st n ref) \<noteq> Inl Panic)
      \<longleftrightarrow> (\<forall>t. 16 \<le> length (fst (randomtoken_Generate E t))))
   \<and> (randomtoken_Generate E (tick st) = (v, Some e) \<and> length v < 8
        \<and> go_index (sData ref) ''username'' = []
      \<longrightarrow> fst (generateBasic E app st n ref) = Inl Panic)
   \<and> (randomtoken_Generate E (tick st) = (v, Some e) \<and> 8 \<le> length v
        \<and> go_index (sData ref) ''username'' = []
      \<longrightarrow> fst (generateBasic E app st n ref) = Inl (Err e))"
proof (intro conjI iffI allI impI)
  fix t
  assume a: "\<forall>app st n ref. fst (generateBasic E app st n ref) \<noteq> Inl Panic"
  show "16 \<le> length (fst (randomtoken_Generate E t))"
  proof (rule ccontr)
    assume "\<not> 16 \<le> length (fst (randomtoken_Generate E t))"
    then have "length (fst (randomtoken_Generate E t)) < 16" by simp
    from generateBasic_short_token [OF this] a show False by blast
  qed
next
  fix app' :: appInstance and st' :: passState and n' :: string and ref' :: secretDef
  assume a: "\<forall>t. 16 \<le> length (fst (randomtoken_Generate E t))"
  have "fst (generateBasic_loop E [(0, ''username''), (1, ''password'')] st'
           (newSecret app' n' (seedData (sData ref') [''username'', ''password''])
              ''kubernetes.io/basic-auth'')) \<noteq> Inl Panic"
    by (rule generateBasic_loop_no_panic [OF a]) simp
  then show "fst (generateBasic E app' st' n' ref') \<noteq> Inl Panic"
    using Create_no_panic
    by (auto simp: generateBasic_def split: prod.splits sum.splits)
next
  assume "randomtoken_Generate E (tick st) = (v, Some e) \<and> length v < 8
        \<and> go_index (sData ref) ''username'' = []"
  then show "fst (generateBasic E app st n ref) = Inl Panic"
    by (simp add: generateBasic_def newSecret_def blen_def)
next
  assume "randomtoken_Generate E (tick st) = (v, Some e) \<and> 8 \<le> length v
        \<and> go_index (sData ref) ''username'' = []"
  then show "fst (generateBasic E app st n ref) = Inl (Err e)"
    by (simp add: generateBasic_def newSecret_def blen_def)
qed

theorem generateBasic_truncation_witness:
  "randomtoken_Generate env_rng_fails (tick st0) = ([], Some (PlainErr ''entropy''))
   \<and> length ([] :: string) < 8
   \<and> go_index (sData (descriptor ''basic'')) ''username'' = []
   \<and> fst (generateBasic env_rng_fails (app_with [] []) st0 ''pass'' (descriptor ''basic'')) = Inl Panic
   \<and> \<not> (\<forall>t. 16 \<le> length (fst (randomtoken_Generate env_rng_fails t)))
   \<and> (\<forall>t. 16 \<le> length (fst (randomtoken_Generate env0 t)))
   \<and> fst (generateBasic env0 (app_with [] []) st0 ''pass'' (descriptor ''basic'')) \<noteq> Inl Panic"
proof -
  have r: "randomtoken_Generate env_rng_fails (tick st0) = ([], Some (PlainErr ''entropy''))"
    by (simp add: env_rng_fails_def)
  have u: "go_index (sData (descriptor ''basic'')) ''username'' = []"
    by (simp add: descriptor_def)
  have p: "fst (generateBasic env_rng_fails (app_with [] []) st0 ''pass'' (descriptor ''basic'')) = Inl Panic"
    using generateBasic_truncation [of env_rng_fails st0 "[]" "PlainErr ''entropy''"
        "descriptor ''basic''" "app_with [] []" "''pass''"] r u by simp
  have n: "\<not> (\<forall>t. 16 \<le> length (fst (randomtoken_Generate env_rng_fails t)))"
    by (simp add: env_rng_fails_def)
  have l: "\<forall>t. 16 \<le> length (fst (randomtoken_Generate env0 t))"
    by (simp add: env0_def)
  have q: "fst (generateBasic env0 (app_with [] []) st0 ''pass'' (descriptor ''basic'')) \<noteq> Inl Panic"
    using generateBasic_truncation [of env0] l by blast
  from r u p n l q show ?thesis by simp
qed

end
